theory Spec2Isabelle
  imports Main "HOL-Library.Sublist" "HOL-Library.Char_ord" "HOL-Library.List_Lexorder"
begin

section \<open>Values, errors and results\<close>

text \<open>
  A Go \<^verbatim>\<open>interface{}\<close> value as it can occur in a decoded JWT header or claim set:
  JSON null, a string, an array, a number, a boolean or a nested object (kept opaque).
\<close>

datatype jvalue =
    JNil
  | JString string
  | JArray "jvalue list"
  | JNumber int
  | JBool bool
  | JObject

text \<open>
  Error values. Message texts are kept as the format string with its arguments, the way the
  source passes them to \<^verbatim>\<open>fmt.Sprintf\<close> and \<^verbatim>\<open>fmt.Errorf\<close>; the rendering is not modelled.
  \<open>ErrorResponse code status detail meta\<close> is what an error class of goa builds;
  \<open>ValidationError inner errors\<close> is the error of the JWT library.
\<close>

datatype message =
    Lit string
  | Sprintf string "message list"
  | ErrorText error
  | Value jvalue
  | TypeOf jvalue
and error =
    Errorf string "message list"
  | ErrorResponse string nat message "(string \<times> string list) list"
  | ValidationError "error option" nat

text \<open>What a Go function that returns \<^verbatim>\<open>(value, error)\<close> does: return the value, return an
  error, or panic.\<close>

datatype 'a ret = Val 'a | Fail error | Panic string

fun Code :: "error \<Rightarrow> string" where
  "Code (ErrorResponse c s d m) = c"
| "Code _ = []"

fun Status :: "error \<Rightarrow> nat" where
  "Status (ErrorResponse c s d m) = s"
| "Status _ = 0"


text \<open>Modelled from the spec: \<^verbatim>\<open>goa.NewErrorClass\<close> is not among the sources. An error class
  builds a structured error of the given kind and HTTP status, with the message and the optional
  key/value fields it is called with.\<close>

definition NewErrorClass :: "string \<Rightarrow> nat \<Rightarrow> message \<Rightarrow> (string \<times> string list) list \<Rightarrow> error" where
  "NewErrorClass code status msg keyvals = ErrorResponse code status msg keyvals"

definition ErrJWTError :: "message \<Rightarrow> (string \<times> string list) list \<Rightarrow> error" where
  "ErrJWTError = NewErrorClass ''jwt_security_error'' 401"

definition isJWTError :: "error \<Rightarrow> bool" where
  "isJWTError e = (Code e = ''jwt_security_error'' \<and> Status e = 401)"

section \<open>Strings\<close>

text \<open>\<^verbatim>\<open>strings.HasPrefix(s, prefix)\<close>.\<close>

definition strings_HasPrefix :: "string \<Rightarrow> string \<Rightarrow> bool" where
  "strings_HasPrefix s p = (take (length p) s = p)"

text \<open>\<^verbatim>\<open>strings.ToLower\<close> on the bytes of a string: the ASCII letters A to Z are mapped to a to z.
  (No other rune has one of the letters of \<^verbatim>\<open>bearer\<close> or the space as its lower case, so the
  prefix test of the source sees the same result.)\<close>

definition toLower_byte :: "char \<Rightarrow> char" where
  "toLower_byte c =
     (case map_of (zip ''ABCDEFGHIJKLMNOPQRSTUVWXYZ'' ''abcdefghijklmnopqrstuvwxyz'') c of
        None \<Rightarrow> c
      | Some l \<Rightarrow> l)"

definition strings_ToLower :: "string \<Rightarrow> string" where
  "strings_ToLower s = map toLower_byte s"

text \<open>\<^verbatim>\<open>strings.Split(s, sep)\<close> for a separator of one byte (the source only splits at
  \<^verbatim>\<open>" "\<close>): the pieces between the separators, one more piece than there are separators, so
  the split of the empty string is the list holding the empty string.\<close>

fun strings_Split :: "string \<Rightarrow> char \<Rightarrow> string list" where
  "strings_Split [] sep = [[]]"
| "strings_Split (c # cs) sep =
     (if c = sep then [] # strings_Split cs sep
      else (case strings_Split cs sep of
              [] \<Rightarrow> [[c]]
            | w # ws \<Rightarrow> (c # w) # ws))"

text \<open>\<^verbatim>\<open>sort.Strings\<close>: ascending, bytewise lexicographic order.\<close>

definition sort_Strings :: "string list \<Rightarrow> string list" where
  "sort_Strings xs = sort xs"

section \<open>Requests, contexts and handlers\<close>

text \<open>The parts of \<^verbatim>\<open>http.Request\<close> the middleware reads: the header fields and the query
  parameters of the URL, each a map from a name to its list of values. \<open>Get\<close> gives the first
  value of a name, or the empty string. (Header names are taken in their canonical form.)\<close>

record Request =
  Header :: "string \<rightharpoonup> string list"
  URL_Query :: "string \<rightharpoonup> string list"

definition Get :: "(string \<rightharpoonup> string list) \<Rightarrow> string \<Rightarrow> string" where
  "Get m name = (case m name of None \<Rightarrow> [] | Some [] \<Rightarrow> [] | Some (v # vs) \<Rightarrow> v)"

text \<open>\<^verbatim>\<open>goa.JWTSecurity\<close>: where the token is found (\<^verbatim>\<open>In\<close>) and under which name.\<close>

datatype Location = LocHeader | LocQuery | LocOther string

record JWTSecurity =
  scheme_In :: Location
  scheme_Name :: string

text \<open>A parsed token of the JWT library: the name of its signing method, its header and its
  claims. \<^verbatim>\<open>jwt.Parse\<close> yields \<open>MapClaims\<close>; \<open>OtherClaims\<close> stands for every other claims type.\<close>

datatype Claims = MapClaims "string \<rightharpoonup> jvalue" | OtherClaims

record Token =
  Method_Alg :: string
  Token_Header :: "string \<rightharpoonup> jvalue"
  Token_Claims :: Claims

text \<open>Modelled from the spec: the request context and its accessors
  \<^verbatim>\<open>goa.ContextRequiredScopes\<close> and \<^verbatim>\<open>WithJWT\<close> are not among the sources. The context carries
  the required scope list of the action and, once attached, the validated token (a pointer).\<close>

record Context =
  RequiredScopes :: "string list"
  JWT :: "Token option"

definition ContextRequiredScopes :: "Context \<Rightarrow> string list" where
  "ContextRequiredScopes ctx = RequiredScopes ctx"

definition WithJWT :: "Context \<Rightarrow> Token option \<Rightarrow> Context" where
  "WithJWT ctx token = ctx\<lparr>JWT := token\<rparr>"

text \<open>A handler is called with the context, the response writer and the request; it returns an
  error or nil and leaves the response writer in a new state, or panics.\<close>

datatype 'rw outcome = Returned "error option" 'rw | Panicked string

type_synonym 'rw Handler = "Context \<Rightarrow> 'rw \<Rightarrow> Request \<Rightarrow> 'rw outcome"

type_synonym 'rw Middleware = "'rw Handler \<Rightarrow> 'rw Handler"

section \<open>Keys and the JWT library\<close>

datatype rsa_PublicKey = rsa_PublicKey int int

datatype ecdsa_PublicKey = ecdsa_PublicKey string int int

text \<open>What a key function hands to the library.\<close>

datatype vkey = RSAKey rsa_PublicKey | ECDSAKey ecdsa_PublicKey | HMACKey string

text \<open>The value given to \<open>New\<close> as \<^verbatim>\<open>validationKeys interface{}\<close>, by its dynamic type.\<close>

datatype validationKeys =
    K_bytes string
  | K_bytes_list "string list"
  | K_string string
  | K_string_list "string list"
  | K_rsa rsa_PublicKey
  | K_rsa_list "rsa_PublicKey list"
  | K_ecdsa ecdsa_PublicKey
  | K_ecdsa_list "ecdsa_PublicKey list"
  | K_other

fun partitionKeys :: "validationKeys \<Rightarrow> rsa_PublicKey list \<times> ecdsa_PublicKey list \<times> string list" where
  "partitionKeys (K_bytes typed) = ([], [], [] @ [typed])"
| "partitionKeys (K_bytes_list typed) = ([], [], typed)"
| "partitionKeys (K_string typed) = ([], [], [] @ [typed])"
| "partitionKeys (K_string_list typed) = ([], [], foldl (\<lambda>hmacKeys s. hmacKeys @ [s]) [] typed)"
| "partitionKeys (K_rsa typed) = ([] @ [typed], [], [])"
| "partitionKeys (K_rsa_list typed) = (typed, [], [])"
| "partitionKeys (K_ecdsa typed) = ([], [] @ [typed], [])"
| "partitionKeys (K_ecdsa_list typed) = ([], typed, [])"
| "partitionKeys K_other = ([], [], [])"

text \<open>
  The JWT library is outside the repository. Its \<^verbatim>\<open>Parse(tokenString, keyFunc)\<close> is taken with
  the contract it documents, over two parameters: \<open>decode\<close> splits and decodes the token string
  (no token when it is malformed), and \<open>verify\<close> checks the signature of the token, and its
  \<^verbatim>\<open>exp\<close> and \<^verbatim>\<open>nbf\<close> claims, under the key the key function returned. Parse decodes, asks the
  key function for the key, fails when the key function does, and verifies otherwise; it
  returns the token and the error side by side, as the Go function does.
\<close>

record jwt_library =
  decode :: "string \<Rightarrow> Token option"
  verify :: "string \<Rightarrow> Token \<Rightarrow> vkey \<Rightarrow> bool"

definition ValidationErrorMalformed :: nat where "ValidationErrorMalformed = 1"
definition ValidationErrorUnverifiable :: nat where "ValidationErrorUnverifiable = 2"
definition ValidationErrorSignatureInvalid :: nat where "ValidationErrorSignatureInvalid = 4"

definition jwt_Parse ::
  "jwt_library \<Rightarrow> string \<Rightarrow> (Token \<Rightarrow> error + vkey) \<Rightarrow> Token option \<times> error option" where
  "jwt_Parse lib tokenString keyFunc =
     (case decode lib tokenString of
        None \<Rightarrow> (None, Some (ValidationError None ValidationErrorMalformed))
      | Some token \<Rightarrow>
          (case keyFunc token of
             Inl e \<Rightarrow> (Some token, Some (ValidationError (Some e) ValidationErrorUnverifiable))
           | Inr key \<Rightarrow>
               if verify lib tokenString token key then (Some token, None)
               else (Some token, Some (ValidationError None ValidationErrorSignatureInvalid))))"

section \<open>The middleware\<close>

text \<open>The key function the three validators pass to \<^verbatim>\<open>jwt.Parse\<close>: it refuses a token whose
  signing method does not begin with \<open>algo\<close>, and returns the key otherwise.\<close>

definition keyFunc :: "string \<Rightarrow> vkey \<Rightarrow> Token \<Rightarrow> error + vkey" where
  "keyFunc algo key token =
     (if \<not> strings_HasPrefix (Method_Alg token) algo
      then Inl (ErrJWTError (Sprintf ''Unexpected signing method: %v''
                  [Value (case Token_Header token ''alg'' of None \<Rightarrow> JNil | Some v \<Rightarrow> v)]) [])
      else Inr key)"

text \<open>Each validator runs over its keys with the named results \<open>(token, err)\<close>, which start as
  \<open>(nil, nil)\<close>; it returns at the first key for which Parse gives no error, and the results of
  the last key otherwise.\<close>

fun validateRSAKeys_from ::
  "Token option \<times> error option \<Rightarrow> jwt_library \<Rightarrow> rsa_PublicKey list \<Rightarrow> string \<Rightarrow> string
     \<Rightarrow> Token option \<times> error option" where
  "validateRSAKeys_from res lib [] algo incomingToken = res"
| "validateRSAKeys_from res lib (pubkey # rsaKeys) algo incomingToken =
     (let res' = jwt_Parse lib incomingToken (keyFunc algo (RSAKey pubkey))
      in if snd res' = None then res'
         else validateRSAKeys_from res' lib rsaKeys algo incomingToken)"

definition validateRSAKeys ::
  "jwt_library \<Rightarrow> rsa_PublicKey list \<Rightarrow> string \<Rightarrow> string \<Rightarrow> Token option \<times> error option" where
  "validateRSAKeys = validateRSAKeys_from (None, None)"

fun validateECDSAKeys_from ::
  "Token option \<times> error option \<Rightarrow> jwt_library \<Rightarrow> ecdsa_PublicKey list \<Rightarrow> string \<Rightarrow> string
     \<Rightarrow> Token option \<times> error option" where
  "validateECDSAKeys_from res lib [] algo incomingToken = res"
| "validateECDSAKeys_from res lib (pubkey # ecdsaKeys) algo incomingToken =
     (let res' = jwt_Parse lib incomingToken (keyFunc algo (ECDSAKey pubkey))
      in if snd res' = None then res'
         else validateECDSAKeys_from res' lib ecdsaKeys algo incomingToken)"

definition validateECDSAKeys ::
  "jwt_library \<Rightarrow> ecdsa_PublicKey list \<Rightarrow> string \<Rightarrow> string \<Rightarrow> Token option \<times> error option" where
  "validateECDSAKeys = validateECDSAKeys_from (None, None)"

fun validateHMACKeys_from ::
  "Token option \<times> error option \<Rightarrow> jwt_library \<Rightarrow> string list \<Rightarrow> string \<Rightarrow> string
     \<Rightarrow> Token option \<times> error option" where
  "validateHMACKeys_from res lib [] algo incomingToken = res"
| "validateHMACKeys_from res lib (key # hmacKeys) algo incomingToken =
     (let res' = jwt_Parse lib incomingToken (keyFunc algo (HMACKey key))
      in if snd res' = None then res'
         else validateHMACKeys_from res' lib hmacKeys algo incomingToken)"

definition validateHMACKeys ::
  "jwt_library \<Rightarrow> string list \<Rightarrow> string \<Rightarrow> string \<Rightarrow> Token option \<times> error option" where
  "validateHMACKeys = validateHMACKeys_from (None, None)"

definition extractTokenFromHeader :: "string \<Rightarrow> Request \<Rightarrow> string ret" where
  "extractTokenFromHeader schemeName req =
     (let val = Get (Header req) schemeName in
      if val = [] then Fail (ErrJWTError (Sprintf ''missing header %q'' [Lit schemeName]) [])
      else if \<not> strings_HasPrefix (strings_ToLower val) ''bearer ''
      then Fail (ErrJWTError
             (Sprintf (''invalid or malformed %q header, expected 'Bearer JWT-token...'' @ [CHR 0x27])
                [Lit val]) [])
      else (case strings_Split val CHR '' '' of
              p # incomingToken # ps \<Rightarrow> Val incomingToken
            | _ \<Rightarrow> Panic ''index out of range''))"

definition extractTokenFromQueryParam :: "string \<Rightarrow> Request \<Rightarrow> string ret" where
  "extractTokenFromQueryParam schemeName req =
     (let incomingToken = Get (URL_Query req) schemeName in
      if incomingToken = [] then Fail (ErrJWTError (Sprintf ''missing parameter %q'' [Lit schemeName]) [])
      else Val incomingToken)"

definition validScopeClaimKeys :: "string list" where
  "validScopeClaimKeys = [''scope'', ''scopes'']"

text \<open>The body of the \<^verbatim>\<open>switch\<close> of \<open>parseClaimScopes\<close>, for the claim value found: the
  scopes it adds, in order, or the error of the default case.\<close>

fun stringsOf :: "jvalue list \<Rightarrow> string list" where
  "stringsOf [] = []"
| "stringsOf (JString val # scopes) = val # stringsOf scopes"
| "stringsOf (scope # scopes) = stringsOf scopes"

fun scopesOfClaim :: "jvalue \<Rightarrow> error + string list" where
  "scopesOfClaim (JString scopes) = Inr (strings_Split scopes CHR '' '')"
| "scopesOfClaim (JArray scopes) = Inr (stringsOf scopes)"
| "scopesOfClaim scopes =
     Inl (Errorf ''unsupported scope format in incoming JWT claim, was type %T'' [TypeOf scopes])"

text \<open>The loop over \<open>validScopeClaimKeys\<close>: the first key that is in the claims with a value
  other than nil decides, and the loop is left there.\<close>

fun findScopes :: "(string \<rightharpoonup> jvalue) \<Rightarrow> string list \<Rightarrow> error + string list" where
  "findScopes claims [] = Inr []"
| "findScopes claims (k # ks) =
     (case claims k of
        None \<Rightarrow> findScopes claims ks
      | Some rawscopes \<Rightarrow>
          if rawscopes \<noteq> JNil then scopesOfClaim rawscopes else findScopes claims ks)"

definition addScopes :: "(string \<rightharpoonup> bool) \<Rightarrow> string list \<Rightarrow> (string \<rightharpoonup> bool)" where
  "addScopes scopesInClaim scopes = foldl (\<lambda>m scope. m(scope \<mapsto> True)) scopesInClaim scopes"

text \<open>The token is a pointer in the source: reading the claims of a nil token panics.\<close>

definition parseClaimScopes :: "Token option \<Rightarrow> ((string \<rightharpoonup> bool) \<times> string list) ret" where
  "parseClaimScopes token =
     (case token of
        None \<Rightarrow> Panic ''nil pointer dereference''
      | Some tok \<Rightarrow>
          (case Token_Claims tok of
             OtherClaims \<Rightarrow> Fail (Errorf ''unsupport claims shape'' [])
           | MapClaims claims \<Rightarrow>
               (case findScopes claims validScopeClaimKeys of
                  Inl e \<Rightarrow> Fail e
                | Inr scopesInClaimList \<Rightarrow>
                    Val (addScopes Map.empty scopesInClaimList, sort_Strings scopesInClaimList))))"

text \<open>Lines 71 to 81 of \<open>New\<close>: the token is taken from the place the scheme names.\<close>

definition New_extract :: "JWTSecurity \<Rightarrow> Request \<Rightarrow> string ret" where
  "New_extract scheme req =
     (case scheme_In scheme of
        LocHeader \<Rightarrow> extractTokenFromHeader (scheme_Name scheme) req
      | LocQuery \<Rightarrow> extractTokenFromQueryParam (scheme_Name scheme) req
      | LocOther l \<Rightarrow>
          Fail (Errorf ''whoops, security scheme with location (in) %q not supported'' [Lit l]))"

text \<open>Lines 83 to 101 of \<open>New\<close>: the three buckets are tried in turn, over the variables
  \<open>token\<close>, \<open>err\<close> (nil after a successful extraction) and \<open>validated\<close>.\<close>

definition New_validate ::
  "jwt_library \<Rightarrow> rsa_PublicKey list \<Rightarrow> ecdsa_PublicKey list \<Rightarrow> string list \<Rightarrow> string
     \<Rightarrow> Token option \<times> error option" where
  "New_validate lib rsaKeys ecdsaKeys hmacKeys incomingToken =
     (let (token, err, validated) = (None, None, False);
          (token, err, validated) =
             (if length rsaKeys > 0
              then (let (t, e) = validateRSAKeys lib rsaKeys ''RS'' incomingToken in (t, e, e = None))
              else (token, err, validated));
          (token, err, validated) =
             (if \<not> validated \<and> length ecdsaKeys > 0
              then (let (t, e) = validateECDSAKeys lib ecdsaKeys ''ES'' incomingToken in (t, e, e = None))
              else (token, err, validated));
          (token, err) =
             (if \<not> validated \<and> length hmacKeys > 0
              then validateHMACKeys lib hmacKeys ''HS'' incomingToken
              else (token, err))
      in (token, err))"

text \<open>Lines 107 to 126 of \<open>New\<close>: scope parsing, the scope check and the call of the next
  handler. (The call of \<^verbatim>\<open>goa.LogError\<close> only writes to the log and is left out.)\<close>

definition New_authorize ::
  "'rw Middleware option \<Rightarrow> Token option \<Rightarrow> 'rw Handler \<Rightarrow> 'rw Handler" where
  "New_authorize validationFunc token nextHandler ctx rw req =
     (case parseClaimScopes token of
        Panic p \<Rightarrow> Panicked p
      | Fail err \<Rightarrow> Returned (Some (ErrJWTError (ErrorText err) [])) rw
      | Val (scopesInClaim, scopesInClaimList) \<Rightarrow>
          (let requiredScopes = ContextRequiredScopes ctx in
           if \<exists>scope \<in> set requiredScopes. scopesInClaim scope \<noteq> Some True
           then Returned (Some (ErrJWTError
                  (Lit ''authorization failed: required 'scope' or 'scopes' not present in JWT claim'')
                  [(''required'', requiredScopes), (''scopes'', scopesInClaimList)])) rw
           else (let ctx' = WithJWT ctx token;
                     nextHandler' = (case validationFunc of
                                       None \<Rightarrow> nextHandler
                                     | Some f \<Rightarrow> f nextHandler)
                 in nextHandler' ctx' rw req)))"

text \<open>The handler the middleware of \<open>New\<close> builds around \<open>nextHandler\<close>, over the three key
  buckets.\<close>

definition New_handler ::
  "jwt_library \<Rightarrow> rsa_PublicKey list \<times> ecdsa_PublicKey list \<times> string list
     \<Rightarrow> 'rw Middleware option \<Rightarrow> JWTSecurity \<Rightarrow> 'rw Handler \<Rightarrow> 'rw Handler" where
  "New_handler lib keys validationFunc scheme nextHandler ctx rw req =
     (case keys of (rsaKeys, ecdsaKeys, hmacKeys) \<Rightarrow>
      (case New_extract scheme req of
         Panic p \<Rightarrow> Panicked p
       | Fail err \<Rightarrow> Returned (Some err) rw
       | Val incomingToken \<Rightarrow>
           (case New_validate lib rsaKeys ecdsaKeys hmacKeys incomingToken of
              (token, Some err) \<Rightarrow>
                Returned (Some (ErrJWTError (Sprintf ''JWT validation failed: %s'' [ErrorText err]) [])) rw
            | (token, None) \<Rightarrow> New_authorize validationFunc token nextHandler ctx rw req)))"

definition New ::
  "jwt_library \<Rightarrow> validationKeys \<Rightarrow> 'rw Middleware option \<Rightarrow> JWTSecurity \<Rightarrow> 'rw Middleware" where
  "New lib validationKeys validationFunc scheme =
     New_handler lib (partitionKeys validationKeys) validationFunc scheme"

section \<open>Notions of the statements\<close>


definition keyVerifies :: "jwt_library \<Rightarrow> string \<Rightarrow> string \<times> vkey \<Rightarrow> bool" where
  "keyVerifies lib incomingToken ak =
     (snd (jwt_Parse lib incomingToken (keyFunc (fst ak) (snd ak))) = None)"

text \<open>The three buckets as one run over the configured keys: the results start as \<open>res\<close>,
  the run stops at the first key for which Parse gives no error, and gives the results of the
  last key otherwise.\<close>

fun tryKeys ::
  "Token option \<times> error option \<Rightarrow> jwt_library \<Rightarrow> (string \<times> vkey) list \<Rightarrow> string
     \<Rightarrow> Token option \<times> error option" where
  "tryKeys res lib [] incomingToken = res"
| "tryKeys res lib (ak # aks) incomingToken =
     (let res' = jwt_Parse lib incomingToken (keyFunc (fst ak) (snd ak))
      in if snd res' = None then res' else tryKeys res' lib aks incomingToken)"

text \<open>What Parse returns as the error when the key function refuses the signing method of the
  token.\<close>

definition mismatch :: "Token \<Rightarrow> error" where
  "mismatch token =
     ValidationError
       (Some (ErrJWTError (Sprintf ''Unexpected signing method: %v''
                [Value (case Token_Header token ''alg'' of None \<Rightarrow> JNil | Some v \<Rightarrow> v)]) []))
       ValidationErrorUnverifiable"




section \<open>The design graph\<close>

text \<open>Modelled from the spec: the DSL engine and the design package (\<^verbatim>\<open>apidsl.API\<close>,
  \<^verbatim>\<open>apidsl.Resource\<close>, \<^verbatim>\<open>dslengine.Run\<close>, \<^verbatim>\<open>ResourceDefinition.Validate\<close>) are not among the
  sources; only their tests are. The definitions of this section follow the data model, the
  invariants and the error kinds of the specification, and the scenarios of the tests.\<close>

datatype DataType = String | Integer | Boolean | Number | DateTime | UUID | Any

record AttributeDefinition =
  attr_Type :: DataType
  attr_Description :: string

record APIDefinition =
  api_Name :: string
  api_Description :: string
  api_BasePath :: string
  api_Params :: "string \<rightharpoonup> AttributeDefinition"

record ResourceDefinition =
  res_Name :: string
  res_Description :: string
  res_ParentName :: string
  res_BasePath :: string
  res_Params :: "string \<rightharpoonup> AttributeDefinition"
  res_MediaType :: string
  res_CanonicalActionName :: string
  res_Actions :: "string list"

datatype DSLError =
    DuplicateDefinition string string
  | ContextError string
  | NameRequired string
  | MissingAPI
  | UnresolvedReference string string
  | MissingParam string string
  | ParamConflict string string

text \<open>Modelled from the spec: the body of a builder callback, as the list of the leaf builders
  it calls. Each leaf acts on the entity whose scope is open.\<close>

datatype builder =
    Description string
  | BasePath string
  | Param string DataType string
  | Parent string
  | DefaultMedia string
  | CanonicalActionName string
  | Action string

record Design =
  API :: "APIDefinition option"
  Resources :: "string \<rightharpoonup> ResourceDefinition"
  ResourceNames :: "string list"
  Errors :: "DSLError list"

definition Reset :: Design where
  "Reset = \<lparr>API = None, Resources = Map.empty, ResourceNames = [], Errors = []\<rparr>"

text \<open>Modelled from the spec: a leaf builder in the scope of the API. A builder that does not
  fit the scope records a \<open>ContextError\<close> and is ignored.\<close>

fun api_builder :: "builder \<Rightarrow> APIDefinition \<times> DSLError list \<Rightarrow> APIDefinition \<times> DSLError list" where
  "api_builder (Description d) (a, es) = (a\<lparr>api_Description := d\<rparr>, es)"
| "api_builder (BasePath p) (a, es) = (a\<lparr>api_BasePath := p\<rparr>, es)"
| "api_builder (Param n t d) (a, es) =
     (a\<lparr>api_Params := (api_Params a)(n \<mapsto> \<lparr>attr_Type = t, attr_Description = d\<rparr>)\<rparr>, es)"
| "api_builder b (a, es) = (a, es @ [ContextError (api_Name a)])"

text \<open>Modelled from the spec: a leaf builder in the scope of a resource.\<close>

fun resource_builder ::
  "builder \<Rightarrow> ResourceDefinition \<times> DSLError list \<Rightarrow> ResourceDefinition \<times> DSLError list" where
  "resource_builder (Description d) (r, es) = (r\<lparr>res_Description := d\<rparr>, es)"
| "resource_builder (BasePath p) (r, es) = (r\<lparr>res_BasePath := p\<rparr>, es)"
| "resource_builder (Param n t d) (r, es) =
     (r\<lparr>res_Params := (res_Params r)(n \<mapsto> \<lparr>attr_Type = t, attr_Description = d\<rparr>)\<rparr>, es)"
| "resource_builder (Parent p) (r, es) = (r\<lparr>res_ParentName := p\<rparr>, es)"
| "resource_builder (DefaultMedia m) (r, es) = (r\<lparr>res_MediaType := m\<rparr>, es)"
| "resource_builder (CanonicalActionName n) (r, es) = (r\<lparr>res_CanonicalActionName := n\<rparr>, es)"
| "resource_builder (Action n) (r, es) = (r\<lparr>res_Actions := res_Actions r @ [n]\<rparr>, es)"

text \<open>Modelled from the spec: a callback that is nil does nothing; one that is given runs its
  builders in order.\<close>

definition run_dsl :: "(builder \<Rightarrow> 'a \<Rightarrow> 'a) \<Rightarrow> builder list option \<Rightarrow> 'a \<Rightarrow> 'a" where
  "run_dsl step dsl x = (case dsl of None \<Rightarrow> x | Some body \<Rightarrow> foldl (\<lambda>y b. step b y) x body)"

text \<open>Modelled from the spec: a new resource has no parent, no base path and no params, and
  its default media type is \<^verbatim>\<open>text/plain\<close> until \<open>DefaultMedia\<close> declares another.\<close>

definition NewResourceDefinition :: "string \<Rightarrow> ResourceDefinition" where
  "NewResourceDefinition name =
     \<lparr>res_Name = name, res_Description = [], res_ParentName = [], res_BasePath = [],
      res_Params = Map.empty, res_MediaType = ''text/plain'', res_CanonicalActionName = [],
      res_Actions = []\<rparr>"

definition NewAPIDefinition :: "string \<Rightarrow> APIDefinition" where
  "NewAPIDefinition name =
     \<lparr>api_Name = name, api_Description = [], api_BasePath = [], api_Params = Map.empty\<rparr>"

text \<open>Modelled from the spec: \<open>API\<close> registers the API root; a second API, of the same name or
  another, records \<open>DuplicateDefinition\<close> and leaves the design as it is.\<close>

definition API_dsl :: "string \<Rightarrow> builder list option \<Rightarrow> Design \<Rightarrow> Design" where
  "API_dsl name dsl st =
     (case API st of
        Some a \<Rightarrow> st\<lparr>Errors := Errors st @ [DuplicateDefinition ''API'' name]\<rparr>
      | None \<Rightarrow>
          (let (a, es) = run_dsl api_builder dsl (NewAPIDefinition name, Errors st)
           in st\<lparr>API := Some a, Errors := es\<rparr>))"

text \<open>Modelled from the spec: \<open>Resource\<close> registers a resource under its name and returns it;
  a second resource of the same name records \<open>DuplicateDefinition\<close> and returns nothing.\<close>

definition Resource :: "string \<Rightarrow> builder list option \<Rightarrow> Design \<Rightarrow> ResourceDefinition option \<times> Design" where
  "Resource name dsl st =
     (case Resources st name of
        Some r \<Rightarrow> (None, st\<lparr>Errors := Errors st @ [DuplicateDefinition ''Resource'' name]\<rparr>)
      | None \<Rightarrow>
          (let (r, es) = run_dsl resource_builder dsl (NewResourceDefinition name, Errors st)
           in (Some r, st\<lparr>Resources := (Resources st)(name \<mapsto> r),
                          ResourceNames := ResourceNames st @ [name], Errors := es\<rparr>)))"

text \<open>Modelled from the spec: the \<^verbatim>\<open>:name\<close> placeholders of a path, segment by segment.\<close>

fun wildcardOf :: "string \<Rightarrow> string list" where
  "wildcardOf [] = []"
| "wildcardOf (c # name) = (if c = CHR '':'' \<and> name \<noteq> [] then [name] else [])"

definition ExtractWildcards :: "string \<Rightarrow> string list" where
  "ExtractWildcards path = concat (map wildcardOf (strings_Split path CHR ''/''))"

text \<open>Modelled from the spec: a resource base path that begins with \<^verbatim>\<open>//\<close> is absolute.\<close>

definition IsAbsolute :: "string \<Rightarrow> bool" where
  "IsAbsolute path = strings_HasPrefix path ''//''"

text \<open>Modelled from the spec: a placeholder of the resource base path that is also one of the
  API base path conflicts when its declaration in the params of the resource is not the
  declaration in the params of the API (same type, same description), unless the resource base
  path is absolute.\<close>

definition paramConflicts :: "Design \<Rightarrow> ResourceDefinition \<Rightarrow> DSLError list" where
  "paramConflicts st r =
     (case API st of
        None \<Rightarrow> []
      | Some a \<Rightarrow>
          if IsAbsolute (res_BasePath r) then []
          else map (ParamConflict (res_Name r))
                 (filter (\<lambda>n. n \<in> set (ExtractWildcards (api_BasePath a)) \<and> api_Params a n \<noteq> res_Params r n)
                    (ExtractWildcards (res_BasePath r))))"

text \<open>Modelled from the spec: the params that cover the placeholders of a resource base path
  are those of the resource and, unless the path is absolute, those of the API.\<close>

definition combinedParam :: "Design \<Rightarrow> ResourceDefinition \<Rightarrow> string \<Rightarrow> AttributeDefinition option" where
  "combinedParam st r n =
     (case res_Params r n of
        Some d \<Rightarrow> Some d
      | None \<Rightarrow>
          (case API st of
             None \<Rightarrow> None
           | Some a \<Rightarrow> if IsAbsolute (res_BasePath r) then None else api_Params a n))"

text \<open>Modelled from the spec: \<open>Validate\<close> on a resource: the name is required; the parent and
  the canonical action resolve; the action names are unique; the placeholders of the base path
  are covered by the params; no placeholder conflicts with the API.\<close>

definition Validate :: "Design \<Rightarrow> ResourceDefinition \<Rightarrow> DSLError list" where
  "Validate st r =
     (if res_Name r = [] then [NameRequired ''Resource''] else [])
     @ (if res_ParentName r \<noteq> [] \<and> Resources st (res_ParentName r) = None
        then [UnresolvedReference (res_Name r) (res_ParentName r)] else [])
     @ (if res_CanonicalActionName r \<noteq> [] \<and> res_CanonicalActionName r \<notin> set (res_Actions r)
        then [UnresolvedReference (res_Name r) (res_CanonicalActionName r)] else [])
     @ (if distinct (res_Actions r) then [] else [DuplicateDefinition ''Action'' (res_Name r)])
     @ map (MissingParam (res_Name r))
         (filter (\<lambda>n. combinedParam st r n = None) (ExtractWildcards (res_BasePath r)))
     @ paramConflicts st r"

text \<open>Modelled from the spec: \<open>Run\<close> asserts that the API root exists, checks that the
  placeholders of the API base path are covered by the API params, and validates every
  resource in declaration order; the errors join those of the definition phase.\<close>

definition validateDesign :: "Design \<Rightarrow> DSLError list" where
  "validateDesign st =
     (case API st of
        None \<Rightarrow> [MissingAPI]
      | Some a \<Rightarrow>
          map (MissingParam (api_Name a))
            (filter (\<lambda>n. api_Params a n = None) (ExtractWildcards (api_BasePath a))))
     @ concat (map (\<lambda>name. case Resources st name of None \<Rightarrow> [] | Some r \<Rightarrow> Validate st r)
                 (ResourceNames st))"

definition Run :: "Design \<Rightarrow> Design" where
  "Run st = st\<lparr>Errors := Errors st @ validateDesign st\<rparr>"

text \<open>The resources of a design are registered under their own names: what \<open>Resource\<close>
  establishes, and what ties an error that names a resource to that resource.\<close>

definition wellNamed :: "Design \<Rightarrow> bool" where
  "wellNamed st =
     (\<forall>name \<in> set (ResourceNames st).
        case Resources st name of None \<Rightarrow> False | Some r \<Rightarrow> res_Name r = name)"

section \<open>Concrete inputs\<close>

text \<open>A library instance that decodes every token string to one HS256 token carrying the
  claims given, and accepts the HMAC key \<^verbatim>\<open>secret\<close> only.\<close>

definition ex_token :: "(string \<rightharpoonup> jvalue) \<Rightarrow> Token" where
  "ex_token claims =
     \<lparr>Method_Alg = ''HS256'', Token_Header = [''alg'' \<mapsto> JString ''HS256''],
      Token_Claims = MapClaims claims\<rparr>"

definition ex_lib :: "(string \<rightharpoonup> jvalue) \<Rightarrow> jwt_library" where
  "ex_lib claims =
     \<lparr>decode = (\<lambda>s. Some (ex_token claims)),
      verify = (\<lambda>s t k. k = HMACKey ''secret'')\<rparr>"

definition ex_req :: "string \<Rightarrow> Request" where
  "ex_req val = \<lparr>Header = [''Authorization'' \<mapsto> [val]], URL_Query = Map.empty\<rparr>"

definition ex_scheme :: JWTSecurity where
  "ex_scheme = \<lparr>scheme_In = LocHeader, scheme_Name = ''Authorization''\<rparr>"

definition ex_ctx :: "string list \<Rightarrow> Context" where
  "ex_ctx required = \<lparr>RequiredScopes = required, JWT = None\<rparr>"

text \<open>A next handler that counts its calls in the response writer and returns nil.\<close>

definition ex_next :: "nat Handler" where
  "ex_next ctx rw req = Returned None (Suc rw)"

text \<open>The API of the tests under \<^verbatim>\<open>with Params\<close> and \<^verbatim>\<open>and a BasePath using them\<close>, and the
  designs of the two tests beneath them: a resource whose base path uses \<^verbatim>\<open>:accountID\<close> again,
  and a resource with an absolute base path that declares the param itself. The third design
  has a resource that declares the param with another type.\<close>

definition ex_api :: Design where
  "ex_api =
     API_dsl ''foo''
       (Some [BasePath ''/:accountID/:id'',
              Param ''accountID'' Integer ''the account ID'',
              Param ''id'' String ''the widget ID'']) Reset"

definition ex_conflicting :: Design where
  "ex_conflicting = snd (Resource ''foo'' (Some [BasePath ''/:accountID'']) ex_api)"

definition ex_absolute :: Design where
  "ex_absolute =
     snd (Resource ''foo''
            (Some [Param ''accountID'' Integer ''the account ID'', BasePath ''//:accountID'']) ex_api)"

definition ex_redeclared :: Design where
  "ex_redeclared =
     snd (Resource ''foo''
            (Some [Param ''accountID'' String ''the account ID'', BasePath ''/:accountID'']) ex_api)"


section \<open>Helper lemmas\<close>

lemma isJWTError_ErrJWTError: "isJWTError (ErrJWTError msg keyvals)"
  by (simp add: isJWTError_def ErrJWTError_def NewErrorClass_def)











section \<open>Token extraction from a header\<close>





section \<open>Scope parsing\<close>



lemma parseClaimScopes_claims:
  "Token_Claims tok = MapClaims claims \<Longrightarrow>
   parseClaimScopes (Some tok) =
     (case findScopes claims validScopeClaimKeys of
        Inl e \<Rightarrow> Fail e
      | Inr l \<Rightarrow> Val (addScopes Map.empty l, sort_Strings l))"
  by (simp add: parseClaimScopes_def)


lemma ex_extract: "New_extract ex_scheme (ex_req ''Bearer x.y.z'') = Val ''x.y.z''"
  by (simp add: New_extract_def ex_scheme_def ex_req_def extractTokenFromHeader_def Get_def
      strings_HasPrefix_def strings_ToLower_def toLower_byte_def)


text \<open>C5: a token whose \<^verbatim>\<open>scope\<close> claim (or, without one, whose \<^verbatim>\<open>scopes\<close> claim) is the empty
  string. The source splits the empty string into one piece, the empty string, and returns it
  as a scope: the scope set holds the scope \<open>[]\<close> and the scope list is \<open>[[]]\<close>, not empty.\<close>

theorem parseClaimScopes_empty_string:
  assumes "Token_Claims tok = MapClaims claims"
    and "claims ''scope'' = Some (JString [])
         \<or> (claims ''scope'' = None \<and> claims ''scopes'' = Some (JString []))"
  shows "parseClaimScopes (Some tok) = Val ([[] \<mapsto> True], [[]])"
  using assms
  by (auto simp add: parseClaimScopes_claims validScopeClaimKeys_def addScopes_def sort_Strings_def)

theorem parseClaimScopes_empty_string_witness:
  "parseClaimScopes (Some (ex_token [''scope'' \<mapsto> JString []])) = Val ([[] \<mapsto> True], [[]])
   \<and> [[] \<mapsto> True] [] = Some True \<and> [[]] \<noteq> ([] :: string list)"
proof -
  have 1: "Token_Claims (ex_token [''scope'' \<mapsto> JString []]) = MapClaims [''scope'' \<mapsto> JString []]"
    by (simp add: ex_token_def)
  have 2: "[''scope'' \<mapsto> JString []] ''scope'' = Some (JString [])
         \<or> ([''scope'' \<mapsto> JString []] ''scope'' = None \<and> [''scope'' \<mapsto> JString []] ''scopes'' = Some (JString []))"
    by simp
  from parseClaimScopes_empty_string [OF 1 2] show ?thesis by simp
qed




lemma findScopes_scope:
  "claims ''scope'' = Some v \<Longrightarrow> v \<noteq> JNil \<Longrightarrow>
   findScopes claims validScopeClaimKeys = scopesOfClaim v"
  by (simp add: validScopeClaimKeys_def)

lemma findScopes_scopes:
  "claims ''scope'' = None \<or> claims ''scope'' = Some JNil \<Longrightarrow>
   claims ''scopes'' = Some v \<Longrightarrow> v \<noteq> JNil \<Longrightarrow>
   findScopes claims validScopeClaimKeys = scopesOfClaim v"
  by (auto simp add: validScopeClaimKeys_def)

lemma scopesOfClaim_shape:
  "(\<exists>e. scopesOfClaim v = Inl e) \<longleftrightarrow> (\<forall>s. v \<noteq> JString s) \<and> (\<forall>l. v \<noteq> JArray l)"
  by (cases v) auto

lemma New_authorize_Fail:
  "parseClaimScopes token = Fail e \<Longrightarrow>
   New_authorize validationFunc token nextHandler ctx rw req
     = Returned (Some (ErrJWTError (ErrorText e) [])) rw"
  by (simp add: New_authorize_def)

text \<open>C7 (as amended): scope parsing looks at the claim \<^verbatim>\<open>scope\<close> first and at \<^verbatim>\<open>scopes\<close> after
  it, and the first of them that is present with a value other than null wins. With such a
  \<^verbatim>\<open>scope\<close> claim the result is the same for every token that carries the same \<^verbatim>\<open>scope\<close> value,
  whatever its other claims; a \<^verbatim>\<open>scope\<close> claim that is absent or null leaves the decision to
  \<^verbatim>\<open>scopes\<close> in the same way. For the value \<open>v\<close> that decides: a string gives its pieces between
  spaces; a list gives its string elements, the others being dropped without an error; every
  other value gives an error, which the middleware returns as a 401 JWTError without calling
  the next handler.\<close>

theorem parseClaimScopes_first_claim_wins:
  assumes "Token_Claims tok = MapClaims claims"
    and "(claims ''scope'' = Some v \<and> v \<noteq> JNil)
         \<or> ((claims ''scope'' = None \<or> claims ''scope'' = Some JNil)
             \<and> claims ''scopes'' = Some v \<and> v \<noteq> JNil)"
  shows "(\<forall>(tok' :: Token) claims'. Token_Claims tok' = MapClaims claims' \<longrightarrow> claims ''scope'' = Some v
            \<longrightarrow> claims' ''scope'' = Some v
            \<longrightarrow> parseClaimScopes (Some tok') = parseClaimScopes (Some tok))
    \<and> (\<forall>s. v = JString s \<longrightarrow>
          parseClaimScopes (Some tok)
            = Val (addScopes Map.empty (strings_Split s CHR '' ''),
                   sort_Strings (strings_Split s CHR '' '')))
    \<and> (\<forall>l. v = JArray l \<longrightarrow>
          parseClaimScopes (Some tok)
            = Val (addScopes Map.empty (stringsOf l), sort_Strings (stringsOf l)))
    \<and> ((\<forall>s. v \<noteq> JString s) \<and> (\<forall>l. v \<noteq> JArray l) \<longrightarrow>
          (\<exists>e err. parseClaimScopes (Some tok) = Fail e
             \<and> New_authorize validationFunc (Some tok) nextHandler ctx rw req = Returned (Some err) rw
             \<and> isJWTError err))"
proof -
  have f: "findScopes claims validScopeClaimKeys = scopesOfClaim v"
    using assms(2) findScopes_scope findScopes_scopes by blast
  have p: "parseClaimScopes (Some tok) =
     (case scopesOfClaim v of Inl e \<Rightarrow> Fail e
      | Inr l \<Rightarrow> Val (addScopes Map.empty l, sort_Strings l))"
    using assms(1) f by (simp add: parseClaimScopes_claims)
  have a: "\<forall>(tok' :: Token) claims'. Token_Claims tok' = MapClaims claims' \<longrightarrow> claims ''scope'' = Some v
            \<longrightarrow> claims' ''scope'' = Some v
            \<longrightarrow> parseClaimScopes (Some tok') = parseClaimScopes (Some tok)"
  proof (intro allI impI)
    fix tok' :: Token and claims'
    assume t: "Token_Claims tok' = MapClaims claims'" and "claims ''scope'' = Some v"
      and c: "claims' ''scope'' = Some v"
    then have "v \<noteq> JNil" using assms(2) by auto
    then have "findScopes claims' validScopeClaimKeys = scopesOfClaim v"
      using c by (rule findScopes_scope [rotated])
    then show "parseClaimScopes (Some tok') = parseClaimScopes (Some tok)"
      using t p by (simp add: parseClaimScopes_claims)
  qed
  have b: "\<forall>s. v = JString s \<longrightarrow>
          parseClaimScopes (Some tok)
            = Val (addScopes Map.empty (strings_Split s CHR '' ''),
                   sort_Strings (strings_Split s CHR '' ''))"
    using p by simp
  have c: "\<forall>l. v = JArray l \<longrightarrow>
          parseClaimScopes (Some tok)
            = Val (addScopes Map.empty (stringsOf l), sort_Strings (stringsOf l))"
    using p by simp
  have d: "(\<forall>s. v \<noteq> JString s) \<and> (\<forall>l. v \<noteq> JArray l) \<longrightarrow>
          (\<exists>e err. parseClaimScopes (Some tok) = Fail e
             \<and> New_authorize validationFunc (Some tok) nextHandler ctx rw req = Returned (Some err) rw
             \<and> isJWTError err)"
  proof
    assume "(\<forall>s. v \<noteq> JString s) \<and> (\<forall>l. v \<noteq> JArray l)"
    then obtain e where "scopesOfClaim v = Inl e"
      using scopesOfClaim_shape by blast
    then have "parseClaimScopes (Some tok) = Fail e" using p by simp
    then show "\<exists>e err. parseClaimScopes (Some tok) = Fail e
             \<and> New_authorize validationFunc (Some tok) nextHandler ctx rw req = Returned (Some err) rw
             \<and> isJWTError err"
      by (simp add: New_authorize_Fail isJWTError_ErrJWTError)
  qed
  from a b c d show ?thesis by blast
qed

text \<open>The theorem at three tokens: a \<^verbatim>\<open>scope\<close> string beside a \<^verbatim>\<open>scopes\<close> claim that is not read,
  a null \<^verbatim>\<open>scope\<close> beside a \<^verbatim>\<open>scopes\<close> list with a number in it, and a \<^verbatim>\<open>scope\<close> that is a
  number.\<close>

theorem parseClaimScopes_first_claim_wins_witness:
  "parseClaimScopes (Some (ex_token [''scope'' \<mapsto> JString ''b a'', ''scopes'' \<mapsto> JString ''c'']))
     = Val ([''b'' \<mapsto> True, ''a'' \<mapsto> True], [''a'', ''b''])
   \<and> parseClaimScopes (Some (ex_token [''scope'' \<mapsto> JNil, ''scopes'' \<mapsto> JArray [JNumber 1, JString ''c'']]))
     = Val ([''c'' \<mapsto> True], [''c''])
   \<and> (\<exists>e err. parseClaimScopes (Some (ex_token [''scope'' \<mapsto> JNumber 7])) = Fail e
        \<and> New_authorize None (Some (ex_token [''scope'' \<mapsto> JNumber 7])) ex_next (ex_ctx []) 0
             (ex_req ''Bearer x.y.z'') = Returned (Some err) 0
        \<and> isJWTError err)"
proof -
  let ?c1 = "[''scope'' \<mapsto> JString ''b a'', ''scopes'' \<mapsto> JString ''c'']"
  let ?c2 = "[''scope'' \<mapsto> JNil, ''scopes'' \<mapsto> JArray [JNumber 1, JString ''c'']]"
  let ?c3 = "[''scope'' \<mapsto> JNumber 7]"
  have t: "\<And>c. Token_Claims (ex_token c) = MapClaims c"
    by (simp add: ex_token_def)
  have h1: "(?c1 ''scope'' = Some (JString ''b a'') \<and> JString ''b a'' \<noteq> JNil)
         \<or> ((?c1 ''scope'' = None \<or> ?c1 ''scope'' = Some JNil)
             \<and> ?c1 ''scopes'' = Some (JString ''b a'') \<and> JString ''b a'' \<noteq> JNil)"
    by simp
  have h2: "(?c2 ''scope'' = Some (JArray [JNumber 1, JString ''c'']) \<and> JArray [JNumber 1, JString ''c''] \<noteq> JNil)
         \<or> ((?c2 ''scope'' = None \<or> ?c2 ''scope'' = Some JNil)
             \<and> ?c2 ''scopes'' = Some (JArray [JNumber 1, JString ''c'']) \<and> JArray [JNumber 1, JString ''c''] \<noteq> JNil)"
    by simp
  have h3: "(?c3 ''scope'' = Some (JNumber 7) \<and> JNumber 7 \<noteq> JNil)
         \<or> ((?c3 ''scope'' = None \<or> ?c3 ''scope'' = Some JNil)
             \<and> ?c3 ''scopes'' = Some (JNumber 7) \<and> JNumber 7 \<noteq> JNil)"
    by simp
  note r1 = parseClaimScopes_first_claim_wins [OF t h1, THEN conjunct2, THEN conjunct1,
      rule_format, OF refl]
  note r2 = parseClaimScopes_first_claim_wins [OF t h2, THEN conjunct2, THEN conjunct2,
      THEN conjunct1, rule_format, OF refl]
  note r3 = parseClaimScopes_first_claim_wins [OF t h3, THEN conjunct2, THEN conjunct2,
      THEN conjunct2, rule_format, of None ex_next "ex_ctx []" 0 "ex_req ''Bearer x.y.z''"]
  have e1: "addScopes Map.empty (strings_Split ''b a'' CHR '' '') = [''b'' \<mapsto> True, ''a'' \<mapsto> True]"
    "sort_Strings (strings_Split ''b a'' CHR '' '') = [''a'', ''b'']"
    by (simp_all add: addScopes_def sort_Strings_def)
  have e2: "addScopes Map.empty (stringsOf [JNumber 1, JString ''c'']) = [''c'' \<mapsto> True]"
    "sort_Strings (stringsOf [JNumber 1, JString ''c'']) = [''c'']"
    by (simp_all add: addScopes_def sort_Strings_def)
  have a: "parseClaimScopes (Some (ex_token ?c1)) = Val ([''b'' \<mapsto> True, ''a'' \<mapsto> True], [''a'', ''b''])"
    using r1 by (simp only: e1)
  have b: "parseClaimScopes (Some (ex_token ?c2)) = Val ([''c'' \<mapsto> True], [''c''])"
    using r2 by (simp only: e2)
  have c: "\<exists>e err. parseClaimScopes (Some (ex_token ?c3)) = Fail e
        \<and> New_authorize None (Some (ex_token ?c3)) ex_next (ex_ctx []) 0
             (ex_req ''Bearer x.y.z'') = Returned (Some err) 0
        \<and> isJWTError err"
    by (rule r3) simp
  from a b c show ?thesis by blast
qed

text \<open>C7 as stated fails twice: a \<^verbatim>\<open>scope\<close> claim that is present with the value null does not
  keep \<^verbatim>\<open>scopes\<close> from being read, and a list that holds a number, which is not a list of
  strings, gives no error.\<close>

theorem parseClaimScopes_first_claim_counterexample:
  "parseClaimScopes (Some (ex_token [''scope'' \<mapsto> JNil, ''scopes'' \<mapsto> JString ''a'']))
     = Val ([''a'' \<mapsto> True], [''a''])
   \<and> parseClaimScopes (Some (ex_token [''scope'' \<mapsto> JNil, ''scopes'' \<mapsto> JString ''a'']))
     \<noteq> parseClaimScopes (Some (ex_token [''scope'' \<mapsto> JNil, ''scopes'' \<mapsto> JString ''b'']))
   \<and> parseClaimScopes (Some (ex_token [''scope'' \<mapsto> JArray [JNumber 1]])) = Val (Map.empty, [])"
  by (simp add: parseClaimScopes_def ex_token_def validScopeClaimKeys_def addScopes_def
      sort_Strings_def)


section \<open>The scope check\<close>



section \<open>Keys of an unknown type\<close>

lemma New_validate_no_keys: "New_validate lib [] [] [] incomingToken = (None, None)"
  by (simp add: New_validate_def)

text \<open>C1: validation keys of a type that \<open>partitionKeys\<close> does not know give three empty
  buckets. With three empty buckets no validator runs, and the token stays nil with no error;
  the source then reads the claims of the nil token. For every request whose extraction
  succeeds the handler panics: the next handler is not called, and no error is returned
  either.\<close>

theorem New_unknown_keys_panic:
  assumes "New_extract scheme req = Val incomingToken"
  shows "partitionKeys K_other = ([], [], [])
    \<and> (partitionKeys validationKeys = ([], [], []) \<longrightarrow>
         New lib validationKeys validationFunc scheme nextHandler ctx rw req
           = Panicked ''nil pointer dereference'')"
  using assms
  by (simp add: New_def New_handler_def New_validate_no_keys New_authorize_def parseClaimScopes_def)

text \<open>The theorem at a request with a bearer token.\<close>

theorem New_unknown_keys_panic_witness:
  "New (ex_lib Map.empty) K_other None ex_scheme ex_next (ex_ctx []) 0 (ex_req ''Bearer x.y.z'')
     = Panicked ''nil pointer dereference''"
  using New_unknown_keys_panic [OF ex_extract, of K_other] by simp

section \<open>Verification over the buckets\<close>




lemma validateRSAKeys_from_tryKeys:
  "validateRSAKeys_from res lib keys algo s = tryKeys res lib (map (\<lambda>k. (algo, RSAKey k)) keys) s"
  by (induction keys arbitrary: res) (simp_all add: Let_def)

lemma validateECDSAKeys_from_tryKeys:
  "validateECDSAKeys_from res lib keys algo s = tryKeys res lib (map (\<lambda>k. (algo, ECDSAKey k)) keys) s"
  by (induction keys arbitrary: res) (simp_all add: Let_def)

lemma validateHMACKeys_from_tryKeys:
  "validateHMACKeys_from res lib keys algo s = tryKeys res lib (map (\<lambda>k. (algo, HMACKey k)) keys) s"
  by (induction keys arbitrary: res) (simp_all add: Let_def)

lemma tryKeys_find:
  "tryKeys res lib aks s =
     (case find (keyVerifies lib s) aks of
        Some ak \<Rightarrow> jwt_Parse lib s (keyFunc (fst ak) (snd ak))
      | None \<Rightarrow> if aks = [] then res else jwt_Parse lib s (keyFunc (fst (last aks)) (snd (last aks))))"
  by (induction aks arbitrary: res) (auto simp add: Let_def keyVerifies_def split: option.splits)







lemma tryKeys_accept:
  assumes "tryKeys (None, None) lib aks s = (Some t, None)"
  shows "\<exists>ak \<in> set aks. jwt_Parse lib s (keyFunc (fst ak) (snd ak)) = (Some t, None)"
proof (cases "find (keyVerifies lib s) aks")
  case None
  then have "\<forall>ak \<in> set aks. snd (jwt_Parse lib s (keyFunc (fst ak) (snd ak))) \<noteq> None"
    by (auto simp add: find_None_iff keyVerifies_def)
  moreover have "aks \<noteq> [] \<Longrightarrow> last aks \<in> set aks" by simp
  ultimately show ?thesis
    using assms None by (cases "aks = []") (auto simp add: tryKeys_find)
next
  case (Some ak)
  then have "ak \<in> set aks" by (auto simp add: find_Some_iff)
  then show ?thesis using assms Some by (auto simp add: tryKeys_find)
qed

lemma jwt_Parse_keyFunc_accept:
  "jwt_Parse lib s (keyFunc algo k) = (Some t, None) \<Longrightarrow>
     decode lib s = Some t \<and> strings_HasPrefix (Method_Alg t) algo \<and> verify lib s t k"
  by (auto simp add: jwt_Parse_def keyFunc_def split: option.splits if_splits)

lemma jwt_Parse_keyFunc_mismatch:
  "decode lib s = Some t \<Longrightarrow> \<not> strings_HasPrefix (Method_Alg t) algo \<Longrightarrow>
   jwt_Parse lib s (keyFunc algo k) =
     (Some t, Some (mismatch t))"
  by (simp add: jwt_Parse_def keyFunc_def mismatch_def)

lemma tryKeys_mismatch:
  assumes "decode lib s = Some t" and "\<forall>ak \<in> set aks. \<not> strings_HasPrefix (Method_Alg t) (fst ak)"
    and "aks \<noteq> []"
  shows "tryKeys res lib aks s =
     (Some t, Some (mismatch t))"
  using assms
proof (induction aks arbitrary: res)
  case Nil
  then show ?case by simp
next
  case (Cons ak aks)
  have p: "jwt_Parse lib s (keyFunc (fst ak) (snd ak)) =
     (Some t, Some (mismatch t))"
    using Cons.prems by (simp add: jwt_Parse_keyFunc_mismatch)
  show ?case
  proof (cases "aks = []")
    case True
    then show ?thesis using p by simp
  next
    case False
    then show ?thesis using p Cons by simp
  qed
qed

section \<open>Key rotation\<close>




section \<open>Algorithm pinning\<close>

text \<open>C4: a validator that returns a token and no error returns the decoded token, whose signing
  method begins with the algorithm prefix the validator was given, verified by the library
  under a key of the bucket. For a token whose signing method does not begin with the prefix,
  a validator with at least one key returns the error of its key function, wrapped by Parse as
  unverifiable: the library is not asked to verify under any key of the bucket. In particular
  an HS256 token is rejected by the RSA validator with its prefix \<^verbatim>\<open>RS\<close>.\<close>

theorem validators_pin_algorithm:
  "(validateRSAKeys lib rsaKeys algo s = (Some t, None) \<longrightarrow>
      decode lib s = Some t \<and> strings_HasPrefix (Method_Alg t) algo
      \<and> (\<exists>k \<in> set rsaKeys. verify lib s t (RSAKey k)))
   \<and> (validateECDSAKeys lib ecdsaKeys algo s = (Some t, None) \<longrightarrow>
      decode lib s = Some t \<and> strings_HasPrefix (Method_Alg t) algo
      \<and> (\<exists>k \<in> set ecdsaKeys. verify lib s t (ECDSAKey k)))
   \<and> (validateHMACKeys lib hmacKeys algo s = (Some t, None) \<longrightarrow>
      decode lib s = Some t \<and> strings_HasPrefix (Method_Alg t) algo
      \<and> (\<exists>k \<in> set hmacKeys. verify lib s t (HMACKey k)))
   \<and> (decode lib s = Some t' \<and> \<not> strings_HasPrefix (Method_Alg t') algo \<longrightarrow>
        (rsaKeys \<noteq> [] \<longrightarrow> validateRSAKeys lib rsaKeys algo s = (Some t', Some (mismatch t')))
        \<and> (ecdsaKeys \<noteq> [] \<longrightarrow> validateECDSAKeys lib ecdsaKeys algo s = (Some t', Some (mismatch t')))
        \<and> (hmacKeys \<noteq> [] \<longrightarrow> validateHMACKeys lib hmacKeys algo s = (Some t', Some (mismatch t'))))
   \<and> (decode lib s = Some t' \<and> Method_Alg t' = ''HS256'' \<and> rsaKeys \<noteq> [] \<longrightarrow>
        validateRSAKeys lib rsaKeys ''RS'' s = (Some t', Some (mismatch t')))"
proof -
  have a: "validateRSAKeys lib rsaKeys algo s = (Some t, None) \<longrightarrow>
      decode lib s = Some t \<and> strings_HasPrefix (Method_Alg t) algo
      \<and> (\<exists>k \<in> set rsaKeys. verify lib s t (RSAKey k))"
  proof
    assume "validateRSAKeys lib rsaKeys algo s = (Some t, None)"
    then have "tryKeys (None, None) lib (map (\<lambda>k. (algo, RSAKey k)) rsaKeys) s = (Some t, None)"
      by (simp add: validateRSAKeys_def validateRSAKeys_from_tryKeys)
    from tryKeys_accept [OF this] obtain k where "k \<in> set rsaKeys"
      and "jwt_Parse lib s (keyFunc algo (RSAKey k)) = (Some t, None)"
      by auto
    then show "decode lib s = Some t \<and> strings_HasPrefix (Method_Alg t) algo
      \<and> (\<exists>k \<in> set rsaKeys. verify lib s t (RSAKey k))"
      using jwt_Parse_keyFunc_accept by blast
  qed
  have b: "validateECDSAKeys lib ecdsaKeys algo s = (Some t, None) \<longrightarrow>
      decode lib s = Some t \<and> strings_HasPrefix (Method_Alg t) algo
      \<and> (\<exists>k \<in> set ecdsaKeys. verify lib s t (ECDSAKey k))"
  proof
    assume "validateECDSAKeys lib ecdsaKeys algo s = (Some t, None)"
    then have "tryKeys (None, None) lib (map (\<lambda>k. (algo, ECDSAKey k)) ecdsaKeys) s = (Some t, None)"
      by (simp add: validateECDSAKeys_def validateECDSAKeys_from_tryKeys)
    from tryKeys_accept [OF this] obtain k where "k \<in> set ecdsaKeys"
      and "jwt_Parse lib s (keyFunc algo (ECDSAKey k)) = (Some t, None)"
      by auto
    then show "decode lib s = Some t \<and> strings_HasPrefix (Method_Alg t) algo
      \<and> (\<exists>k \<in> set ecdsaKeys. verify lib s t (ECDSAKey k))"
      using jwt_Parse_keyFunc_accept by blast
  qed
  have c: "validateHMACKeys lib hmacKeys algo s = (Some t, None) \<longrightarrow>
      decode lib s = Some t \<and> strings_HasPrefix (Method_Alg t) algo
      \<and> (\<exists>k \<in> set hmacKeys. verify lib s t (HMACKey k))"
  proof
    assume "validateHMACKeys lib hmacKeys algo s = (Some t, None)"
    then have "tryKeys (None, None) lib (map (\<lambda>k. (algo, HMACKey k)) hmacKeys) s = (Some t, None)"
      by (simp add: validateHMACKeys_def validateHMACKeys_from_tryKeys)
    from tryKeys_accept [OF this] obtain k where "k \<in> set hmacKeys"
      and "jwt_Parse lib s (keyFunc algo (HMACKey k)) = (Some t, None)"
      by auto
    then show "decode lib s = Some t \<and> strings_HasPrefix (Method_Alg t) algo
      \<and> (\<exists>k \<in> set hmacKeys. verify lib s t (HMACKey k))"
      using jwt_Parse_keyFunc_accept by blast
  qed
  have d: "decode lib s = Some t' \<and> \<not> strings_HasPrefix (Method_Alg t') algo' \<longrightarrow>
        (rsaKeys \<noteq> [] \<longrightarrow> validateRSAKeys lib rsaKeys algo' s = (Some t', Some (mismatch t')))
        \<and> (ecdsaKeys \<noteq> [] \<longrightarrow> validateECDSAKeys lib ecdsaKeys algo' s = (Some t', Some (mismatch t')))
        \<and> (hmacKeys \<noteq> [] \<longrightarrow> validateHMACKeys lib hmacKeys algo' s = (Some t', Some (mismatch t')))"
    for algo'
    by (simp add: validateRSAKeys_def validateRSAKeys_from_tryKeys validateECDSAKeys_def
        validateECDSAKeys_from_tryKeys validateHMACKeys_def validateHMACKeys_from_tryKeys
        tryKeys_mismatch)
  have e: "Method_Alg t' = ''HS256'' \<Longrightarrow> \<not> strings_HasPrefix (Method_Alg t') ''RS''"
    by (simp add: strings_HasPrefix_def)
  from a b c d [of algo] d [of "''RS''"] e show ?thesis by blast
qed

text \<open>The theorem at an HS256 token: the HMAC validator accepts it under the key that
  verifies, and the RSA validator refuses it.\<close>

theorem validators_pin_algorithm_witness:
  "validateHMACKeys (ex_lib Map.empty) [''old'', ''secret''] ''HS'' ''x.y.z''
     = (Some (ex_token Map.empty), None)
   \<and> strings_HasPrefix (Method_Alg (ex_token Map.empty)) ''HS''
   \<and> validateRSAKeys (ex_lib Map.empty) [rsa_PublicKey 3 5] ''RS'' ''x.y.z''
     = (Some (ex_token Map.empty), Some (mismatch (ex_token Map.empty)))"
proof -
  let ?lib = "ex_lib Map.empty" and ?t = "ex_token Map.empty"
  have h: "validateHMACKeys ?lib [''old'', ''secret''] ''HS'' ''x.y.z'' = (Some ?t, None)"
    by (simp add: validateHMACKeys_def jwt_Parse_def keyFunc_def ex_lib_def ex_token_def
        strings_HasPrefix_def)
  have d: "decode ?lib ''x.y.z'' = Some ?t \<and> Method_Alg ?t = ''HS256''
      \<and> [rsa_PublicKey 3 5] \<noteq> []"
    by (simp add: ex_lib_def ex_token_def)
  note t = validators_pin_algorithm [of ?lib "[rsa_PublicKey 3 5]" "''HS''" "''x.y.z''" ?t "[]"
      "[''old'', ''secret'']" ?t]
  from t h have 1: "strings_HasPrefix (Method_Alg ?t) ''HS''" by blast
  from t d have 2: "validateRSAKeys ?lib [rsa_PublicKey 3 5] ''RS'' ''x.y.z'' = (Some ?t, Some (mismatch ?t))"
    by blast
  from h 1 2 show ?thesis by blast
qed


section \<open>Validation of the design graph\<close>

lemma Run_fields:
  "API (Run st) = API st" "Resources (Run st) = Resources st"
  "ResourceNames (Run st) = ResourceNames st"
  by (simp_all add: Run_def)

lemma Validate_Run: "Validate (Run st) r = Validate st r"
  unfolding Validate_def paramConflicts_def combinedParam_def Run_fields by (rule refl)

lemma resource_builder_name: "res_Name (fst (resource_builder b x)) = res_Name (fst x)"
  by (cases b; cases x) simp_all

lemma run_dsl_resource_name:
  "res_Name (fst (run_dsl resource_builder dsl x)) = res_Name (fst x)"
proof (cases dsl)
  case None
  then show ?thesis by (simp add: run_dsl_def)
next
  case (Some body)
  have "res_Name (fst (foldl (\<lambda>y b. resource_builder b y) x body)) = res_Name (fst x)"
    by (induction body arbitrary: x) (simp_all add: resource_builder_name)
  with Some show ?thesis by (simp add: run_dsl_def)
qed

lemma wellNamed_Reset: "wellNamed Reset"
  by (simp add: wellNamed_def Reset_def)

lemma wellNamed_API_dsl: "wellNamed st \<Longrightarrow> wellNamed (API_dsl name dsl st)"
  by (auto simp add: wellNamed_def API_dsl_def split_beta split: option.splits)

lemma wellNamed_Resource: "wellNamed st \<Longrightarrow> wellNamed (snd (Resource name dsl st))"
proof (cases "Resources st name")
  case None
  assume w: "wellNamed st"
  have n: "res_Name (fst (run_dsl resource_builder dsl (NewResourceDefinition name, Errors st))) = name"
    by (simp add: run_dsl_resource_name NewResourceDefinition_def)
  show ?thesis
    using None w n by (auto simp add: wellNamed_def Resource_def split_beta split: option.splits)
next
  case (Some r)
  assume "wellNamed st"
  with Some show ?thesis by (simp add: wellNamed_def Resource_def)
qed

lemma paramConflicts_member:
  "ParamConflict name n \<in> set (paramConflicts st r) \<longleftrightarrow>
     name = res_Name r \<and> \<not> IsAbsolute (res_BasePath r)
     \<and> (\<exists>a. API st = Some a \<and> n \<in> set (ExtractWildcards (res_BasePath r))
            \<and> n \<in> set (ExtractWildcards (api_BasePath a)) \<and> api_Params a n \<noteq> res_Params r n)"
  by (cases "API st") (auto simp add: paramConflicts_def)

lemma Validate_ParamConflict:
  "ParamConflict name n \<in> set (Validate st r) \<longleftrightarrow> ParamConflict name n \<in> set (paramConflicts st r)"
  by (auto simp add: Validate_def)

lemma validated_member:
  "e \<in> set (case Resources st name of None \<Rightarrow> [] | Some r \<Rightarrow> Validate st r) \<longleftrightarrow>
     (\<exists>r. Resources st name = Some r \<and> e \<in> set (Validate st r))"
  by (cases "Resources st name") auto

lemma validateDesign_ParamConflict:
  "ParamConflict name n \<in> set (validateDesign st) \<longleftrightarrow>
     (\<exists>name' \<in> set (ResourceNames st). \<exists>r. Resources st name' = Some r
        \<and> ParamConflict name n \<in> set (paramConflicts st r))"
proof -
  have "ParamConflict name n \<notin> set (case API st of None \<Rightarrow> [MissingAPI]
      | Some a \<Rightarrow> map (MissingParam (api_Name a))
            (filter (\<lambda>n. api_Params a n = None) (ExtractWildcards (api_BasePath a))))"
    by (cases "API st") auto
  then show ?thesis
    by (simp add: validateDesign_def validated_member Validate_ParamConflict) metis
qed

lemma Errors_Run: "set (Errors (Run st)) = set (Errors st) \<union> set (validateDesign st)"
  by (simp add: Run_def)

text \<open>C8: spec-modelled. In a design whose resources are registered under their names, for a
  resource \<open>r\<close> that \<open>Run\<close> validates: if a placeholder of its base path is also one of the API
  base path, both the API and the resource declare it as a param, the two declarations differ
  in type or in description, and the base path of the resource does not begin with \<^verbatim>\<open>//\<close>, then
  \<open>Run\<close> records a \<open>ParamConflict\<close> for the resource and the placeholder; and if the base path of
  the resource begins with \<^verbatim>\<open>//\<close>, \<open>Run\<close> records no \<open>ParamConflict\<close> for the resource, whatever
  the resource declares.\<close>

theorem Run_param_conflict:
  assumes "wellNamed st" and "name \<in> set (ResourceNames st)" and "Resources st name = Some r"
  shows "(\<forall>a n d1 d2.
            API st = Some a \<and> n \<in> set (ExtractWildcards (api_BasePath a))
            \<and> n \<in> set (ExtractWildcards (res_BasePath r))
            \<and> api_Params a n = Some d1 \<and> res_Params r n = Some d2
            \<and> (attr_Type d1 \<noteq> attr_Type d2 \<or> attr_Description d1 \<noteq> attr_Description d2)
            \<and> \<not> strings_HasPrefix (res_BasePath r) ''//''
            \<longrightarrow> ParamConflict name n \<in> set (Errors (Run st)))
    \<and> (strings_HasPrefix (res_BasePath r) ''//'' \<longrightarrow>
          (\<forall>n. ParamConflict name n \<notin> set (Errors st) \<longrightarrow> ParamConflict name n \<notin> set (Errors (Run st))))"
proof -
  have nm: "res_Name r = name"
    using assms by (auto simp add: wellNamed_def split: option.splits)
  have a: "\<forall>a n d1 d2.
            API st = Some a \<and> n \<in> set (ExtractWildcards (api_BasePath a))
            \<and> n \<in> set (ExtractWildcards (res_BasePath r))
            \<and> api_Params a n = Some d1 \<and> res_Params r n = Some d2
            \<and> (attr_Type d1 \<noteq> attr_Type d2 \<or> attr_Description d1 \<noteq> attr_Description d2)
            \<and> \<not> strings_HasPrefix (res_BasePath r) ''//''
            \<longrightarrow> ParamConflict name n \<in> set (Errors (Run st))"
  proof (intro allI impI)
    fix a n d1 d2
    assume h: "API st = Some a \<and> n \<in> set (ExtractWildcards (api_BasePath a))
            \<and> n \<in> set (ExtractWildcards (res_BasePath r))
            \<and> api_Params a n = Some d1 \<and> res_Params r n = Some d2
            \<and> (attr_Type d1 \<noteq> attr_Type d2 \<or> attr_Description d1 \<noteq> attr_Description d2)
            \<and> \<not> strings_HasPrefix (res_BasePath r) ''//''"
    then have "d1 \<noteq> d2" by auto
    then have "api_Params a n \<noteq> res_Params r n" using h by simp
    then have "ParamConflict name n \<in> set (paramConflicts st r)"
      using h nm by (auto simp add: paramConflicts_member IsAbsolute_def)
    then have "ParamConflict name n \<in> set (validateDesign st)"
      using assms(2,3) validateDesign_ParamConflict by blast
    then show "ParamConflict name n \<in> set (Errors (Run st))"
      by (simp add: Errors_Run)
  qed
  have b: "strings_HasPrefix (res_BasePath r) ''//'' \<longrightarrow>
          (\<forall>n. ParamConflict name n \<notin> set (Errors st) \<longrightarrow> ParamConflict name n \<notin> set (Errors (Run st)))"
  proof (intro impI allI)
    fix n
    assume abs: "strings_HasPrefix (res_BasePath r) ''//''"
      and e: "ParamConflict name n \<notin> set (Errors st)"
    have "ParamConflict name n \<notin> set (validateDesign st)"
    proof
      assume "ParamConflict name n \<in> set (validateDesign st)"
      then obtain name' r' where n': "name' \<in> set (ResourceNames st)"
        and r': "Resources st name' = Some r'"
        and c: "ParamConflict name n \<in> set (paramConflicts st r')"
        using validateDesign_ParamConflict by blast
      from c have "res_Name r' = name" and na: "\<not> IsAbsolute (res_BasePath r')"
        by (auto simp add: paramConflicts_member)
      moreover from assms(1) n' r' have "res_Name r' = name'"
        by (auto simp add: wellNamed_def split: option.splits)
      ultimately have "r' = r" using r' assms(3) by simp
      with na abs show False by (simp add: IsAbsolute_def)
    qed
    with e show "ParamConflict name n \<notin> set (Errors (Run st))"
      by (simp add: Errors_Run)
  qed
  from a b show ?thesis by blast
qed


lemmas ex_design_defs = ex_api_def API_dsl_def Resource_def Reset_def run_dsl_def
  NewAPIDefinition_def NewResourceDefinition_def

lemma ex_api_wellNamed: "wellNamed ex_api"
  unfolding ex_api_def by (intro wellNamed_API_dsl wellNamed_Reset)

text \<open>The two tests of the source under \<^verbatim>\<open>with conflicting resource and API base params\<close> and
  \<^verbatim>\<open>with an absolute resource base path\<close>, on the model: the first design has an error after
  \<open>Run\<close>, the second has none.\<close>

lemma api_test_base_params:
  "Errors (Run ex_conflicting) = [ParamConflict ''foo'' ''accountID'']"
  "Errors (Run ex_absolute) = []"
  by (simp_all add: ex_conflicting_def ex_absolute_def ex_design_defs Run_def validateDesign_def
      Validate_def paramConflicts_def combinedParam_def ExtractWildcards_def IsAbsolute_def
      strings_HasPrefix_def)

text \<open>The theorem at a resource that declares \<^verbatim>\<open>accountID\<close> as a string where the API declares
  an integer, and at the resource with the absolute base path.\<close>

theorem Run_param_conflict_witness:
  "ParamConflict ''foo'' ''accountID'' \<in> set (Errors (Run ex_redeclared))
   \<and> (\<forall>n. ParamConflict ''foo'' n \<notin> set (Errors (Run ex_absolute)))"
proof -
  let ?a = "\<lparr>api_Name = ''foo'', api_Description = [], api_BasePath = ''/:accountID/:id'',
      api_Params = [''accountID'' \<mapsto> \<lparr>attr_Type = Integer, attr_Description = ''the account ID''\<rparr>,
                    ''id'' \<mapsto> \<lparr>attr_Type = String, attr_Description = ''the widget ID''\<rparr>]\<rparr>"
  let ?r1 = "\<lparr>res_Name = ''foo'', res_Description = [], res_ParentName = [],
      res_BasePath = ''/:accountID'',
      res_Params = [''accountID'' \<mapsto> \<lparr>attr_Type = String, attr_Description = ''the account ID''\<rparr>],
      res_MediaType = ''text/plain'', res_CanonicalActionName = [], res_Actions = []\<rparr>"
  let ?r2 = "\<lparr>res_Name = ''foo'', res_Description = [], res_ParentName = [],
      res_BasePath = ''//:accountID'',
      res_Params = [''accountID'' \<mapsto> \<lparr>attr_Type = Integer, attr_Description = ''the account ID''\<rparr>],
      res_MediaType = ''text/plain'', res_CanonicalActionName = [], res_Actions = []\<rparr>"
  have w1: "wellNamed ex_redeclared"
    unfolding ex_redeclared_def by (intro wellNamed_Resource ex_api_wellNamed)
  have w2: "wellNamed ex_absolute"
    unfolding ex_absolute_def by (intro wellNamed_Resource ex_api_wellNamed)
  have m1: "''foo'' \<in> set (ResourceNames ex_redeclared)"
    by (simp add: ex_redeclared_def ex_design_defs)
  have m2: "''foo'' \<in> set (ResourceNames ex_absolute)"
    by (simp add: ex_absolute_def ex_design_defs)
  have r1: "Resources ex_redeclared ''foo'' = Some ?r1"
    by (simp add: ex_redeclared_def ex_design_defs)
  have r2: "Resources ex_absolute ''foo'' = Some ?r2"
    by (simp add: ex_absolute_def ex_design_defs)
  have a1: "API ex_redeclared = Some ?a"
    by (simp add: ex_redeclared_def ex_design_defs)
  have e2: "Errors ex_absolute = []"
    by (simp add: ex_absolute_def ex_design_defs)
  have h: "API ex_redeclared = Some ?a \<and> ''accountID'' \<in> set (ExtractWildcards (api_BasePath ?a))
      \<and> ''accountID'' \<in> set (ExtractWildcards (res_BasePath ?r1))
      \<and> api_Params ?a ''accountID'' = Some \<lparr>attr_Type = Integer, attr_Description = ''the account ID''\<rparr>
      \<and> res_Params ?r1 ''accountID'' = Some \<lparr>attr_Type = String, attr_Description = ''the account ID''\<rparr>
      \<and> (attr_Type \<lparr>attr_Type = Integer, attr_Description = ''the account ID''\<rparr>
            \<noteq> attr_Type \<lparr>attr_Type = String, attr_Description = ''the account ID''\<rparr>
          \<or> attr_Description \<lparr>attr_Type = Integer, attr_Description = ''the account ID''\<rparr>
            \<noteq> attr_Description \<lparr>attr_Type = String, attr_Description = ''the account ID''\<rparr>)
      \<and> \<not> strings_HasPrefix (res_BasePath ?r1) ''//''"
    using a1 by (simp add: ExtractWildcards_def strings_HasPrefix_def)
  have p: "strings_HasPrefix (res_BasePath ?r2) ''//''"
    by (simp add: strings_HasPrefix_def)
  note t1 = Run_param_conflict [OF w1 m1 r1, THEN conjunct1, THEN spec, THEN spec, THEN spec,
      THEN spec, THEN mp, OF h]
  note t2 = Run_param_conflict [OF w2 m2 r2, THEN conjunct2, THEN mp, OF p]
  from t1 t2 e2 show ?thesis by simp
qed

section \<open>A resource without a body\<close>

text \<open>C9: spec-modelled. A resource declared by \<open>Resource\<close> with a name that is not empty and
  no DSL body is, after \<open>Run\<close>, registered under its name, validates without an error, and has
  the default media type \<^verbatim>\<open>text/plain\<close>.\<close>

theorem Resource_no_dsl_valid:
  assumes "name \<noteq> []" and "Resource name None st = (Some r, st')"
  shows "Validate (Run st') r = [] \<and> res_MediaType r = ''text/plain''
    \<and> Resources (Run st') name = Some r"
proof -
  from assms(2) have n: "Resources st name = None"
    by (cases "Resources st name") (simp_all add: Resource_def)
  with assms(2) have r: "r = NewResourceDefinition name"
    and s: "Resources st' name = Some r"
    by (auto simp add: Resource_def run_dsl_def)
  have w: "ExtractWildcards [] = []"
    by (simp add: ExtractWildcards_def)
  have v: "Validate st' r = []"
    using assms(1)
    by (simp add: r Validate_def NewResourceDefinition_def paramConflicts_def w IsAbsolute_def
        strings_HasPrefix_def split: option.splits)
  show ?thesis
    using v s by (simp add: Validate_Run Run_fields r NewResourceDefinition_def)
qed

text \<open>The theorem at the test of the source, \<^verbatim>\<open>Resource("foo", nil)\<close> after \<^verbatim>\<open>Reset\<close>; and the
  test beside it: without a name the resource does not validate.\<close>

theorem Resource_no_dsl_valid_witness:
  "(\<exists>r st'. Resource ''foo'' None Reset = (Some r, st') \<and> Validate (Run st') r = []
      \<and> res_MediaType r = ''text/plain'')"
proof -
  obtain r st' where x: "Resource ''foo'' None Reset = (Some r, st')"
    by (simp add: Resource_def Reset_def run_dsl_def)
  have "''foo'' \<noteq> []" by simp
  from Resource_no_dsl_valid [OF this x] x show ?thesis by blast
qed

lemma resource_test_no_name:
  "\<exists>r st'. Resource [] None Reset = (Some r, st') \<and> Validate (Run st') r \<noteq> []"
  by (simp add: Resource_def Reset_def run_dsl_def Validate_def NewResourceDefinition_def)

end
